theory Spec2Isabelle
  imports Complex_Main
begin

section \<open>Numbers and vectors\<close>

text \<open>
  The simulation of \<^verbatim>\<open>src/main.cpp\<close> computes on C \<^verbatim>\<open>float\<close>s. The embedding takes a
  \<^verbatim>\<open>float\<close> as a real number. Comparisons, assignments of constants and the order of the
  tests are the same on both. The code rounds every sum, product, quotient and square
  root to single precision; the definitions below compute the exact value.

  For that reason no theorem of this development states what rounding decides: that a
  rescaled vector has exactly the length it was rescaled to, or that a clamped force is
  exactly within its bound. The theorems state what the tests, the guards and the order of
  the updates make true.

  \<^verbatim>\<open>Vector2\<close> is raylib's struct of two floats.
\<close>

record Vector2 =
  x :: real
  y :: real

text \<open>The constants of lines 7 to 18.\<close>

definition screenWidth :: int where "screenWidth = 1200"
definition screenHeight :: int where "screenHeight = 800"
definition NUM_BOIDS :: int where "NUM_BOIDS = 1000"
definition MAX_SPEED :: real where "MAX_SPEED = 2.5"
definition MAX_FORCE :: real where "MAX_FORCE = 0.1"
definition NEIGHBOR_RADIUS :: real where "NEIGHBOR_RADIUS = 100.0"
definition SEPARATION_RADIUS :: real where "SEPARATION_RADIUS = 20.0"
definition COHESION_WEIGHT :: real where "COHESION_WEIGHT = 0.5"
definition ALIGNMENT_WEIGHT :: real where "ALIGNMENT_WEIGHT = 0.1"
definition SEPARATION_WEIGHT :: real where "SEPARATION_WEIGHT = 0.2"

subsection \<open>The functions of raymath.h that the program calls\<close>

text \<open>
  \<^verbatim>\<open>raymath.h\<close> belongs to raylib and is not among the sources of the repository. The six
  functions below are written after raymath: componentwise sum, difference and scaling,
  the Euclidean length and distance, and \<^verbatim>\<open>Vector2Normalize\<close>, which multiplies by the
  inverse of the length when the length is positive and returns the zero vector
  otherwise, as current raymath does. Each of them is the exact function on the reals
  where raymath rounds its result.
\<close>

definition Vector2Add :: "Vector2 \<Rightarrow> Vector2 \<Rightarrow> Vector2" where
  "Vector2Add v1 v2 = \<lparr>x = x v1 + x v2, y = y v1 + y v2\<rparr>"

definition Vector2Subtract :: "Vector2 \<Rightarrow> Vector2 \<Rightarrow> Vector2" where
  "Vector2Subtract v1 v2 = \<lparr>x = x v1 - x v2, y = y v1 - y v2\<rparr>"

definition Vector2Scale :: "Vector2 \<Rightarrow> real \<Rightarrow> Vector2" where
  "Vector2Scale v scale = \<lparr>x = x v * scale, y = y v * scale\<rparr>"

definition Vector2Length :: "Vector2 \<Rightarrow> real" where
  "Vector2Length v = sqrt (x v * x v + y v * y v)"

definition Vector2Distance :: "Vector2 \<Rightarrow> Vector2 \<Rightarrow> real" where
  "Vector2Distance v1 v2 =
     sqrt ((x v1 - x v2) * (x v1 - x v2) + (y v1 - y v2) * (y v1 - y v2))"

definition Vector2Normalize :: "Vector2 \<Rightarrow> Vector2" where
  "Vector2Normalize v =
     (let len = sqrt (x v * x v + y v * y v) in
      if len > 0 then
        (let ilength = 1 / len in \<lparr>x = x v * ilength, y = y v * ilength\<rparr>)
      else \<lparr>x = 0, y = 0\<rparr>)"

text \<open>
  \<^verbatim>\<open>atan2\<close> of the C library, as the angle in \<open>(-\<pi>, \<pi>]\<close> of the point \<open>(b, a)\<close>, and 0
  at the origin.
\<close>

definition atan2 :: "real \<Rightarrow> real \<Rightarrow> real" where
  "atan2 a b =
     (if b > 0 then arctan (a / b)
      else if b < 0 \<and> a \<ge> 0 then arctan (a / b) + pi
      else if b < 0 \<and> a < 0 then arctan (a / b) - pi
      else if a > 0 then pi / 2
      else if a < 0 then - (pi / 2)
      else 0)"

section \<open>The boid\<close>

record Boid =
  position :: Vector2
  velocity :: Vector2
  acceleration :: Vector2
  rotation :: real

text \<open>
  The constructor (lines 28 to 33). The two calls of \<^verbatim>\<open>GetRandomValue(-2, 2)\<close> are the
  arguments \<open>r1\<close> and \<open>r2\<close>: the random source is an input of the model.
\<close>

definition Boid_new :: "Vector2 \<Rightarrow> int \<Rightarrow> int \<Rightarrow> Boid" where
  "Boid_new pos r1 r2 =
     (let vel = \<lparr>x = real_of_int r1, y = real_of_int r2\<rparr> in
      \<lparr>position = pos, velocity = vel, acceleration = \<lparr>x = 0, y = 0\<rparr>,
       rotation = atan2 (y vel) (x vel)\<rparr>)"

text \<open>\<^verbatim>\<open>update\<close> (lines 36 to 43).\<close>

definition update :: "Boid \<Rightarrow> Boid" where
  "update b =
     (let vel = Vector2Add (velocity b) (acceleration b);
          vel = Vector2Scale (Vector2Normalize vel) MAX_SPEED;
          pos = Vector2Add (position b) vel
      in \<lparr>position = pos, velocity = vel, acceleration = \<lparr>x = 0, y = 0\<rparr>,
          rotation = atan2 (y vel) (x vel)\<rparr>)"

text \<open>\<^verbatim>\<open>applyForce\<close> (lines 46 to 48).\<close>

definition applyForce :: "Boid \<Rightarrow> Vector2 \<Rightarrow> Boid" where
  "applyForce b force = b\<lparr>acceleration := Vector2Add (acceleration b) force\<rparr>"

text \<open>
  \<^verbatim>\<open>borders\<close> (lines 51 to 56): four tests in sequence, each on the position the test
  before it left. The \<^verbatim>\<open>int\<close> constants are converted to \<^verbatim>\<open>float\<close> by the comparison and by
  the assignment.
\<close>

definition borders :: "Boid \<Rightarrow> Boid" where
  "borders b =
     (let p = position b;
          p = (if x p < 0 then p\<lparr>x := real_of_int screenWidth\<rparr> else p);
          p = (if x p > real_of_int screenWidth then p\<lparr>x := 0\<rparr> else p);
          p = (if y p < 0 then p\<lparr>y := real_of_int screenHeight\<rparr> else p);
          p = (if y p > real_of_int screenHeight then p\<lparr>y := 0\<rparr> else p)
      in b\<lparr>position := p\<rparr>)"

subsection \<open>The three steering rules\<close>

text \<open>
  Each rule scans the whole vector of boids with two accumulators, a vector and a count.
  The scan is a recursion on the list that carries both. The count is a C \<^verbatim>\<open>int\<close>; it is
  at most the number of boids, so it is modelled as an unbounded integer.

  The loop of \<^verbatim>\<open>separate\<close> (lines 64 to 73).
\<close>

fun separate_loop :: "Boid \<Rightarrow> Boid list \<Rightarrow> Vector2 \<Rightarrow> int \<Rightarrow> Vector2 \<times> int" where
  "separate_loop self [] steer count = (steer, count)"
| "separate_loop self (other # rest) steer count =
     (let d = Vector2Distance (position self) (position other) in
      if d > 0 \<and> d < SEPARATION_RADIUS then
        (let diff = Vector2Subtract (position self) (position other);
             diff = Vector2Normalize diff;
             diff = Vector2Scale diff (1 / d)
         in separate_loop self rest (Vector2Add steer diff) (count + 1))
      else separate_loop self rest steer count)"

text \<open>\<^verbatim>\<open>separate\<close> (lines 59 to 91).\<close>

definition separate :: "Boid \<Rightarrow> Boid list \<Rightarrow> Vector2" where
  "separate self boids =
     (let (steer, count) = separate_loop self boids \<lparr>x = 0, y = 0\<rparr> 0;
          steer = (if count > 0 then Vector2Scale steer (1 / real_of_int count) else steer)
      in if Vector2Length steer > 0 then
           (let steer = Vector2Normalize steer;
                steer = Vector2Scale steer MAX_SPEED;
                steer = Vector2Subtract steer (velocity self)
            in if Vector2Length steer > MAX_FORCE
               then Vector2Scale (Vector2Normalize steer) MAX_FORCE
               else steer)
         else steer)"

text \<open>
  The loop of \<^verbatim>\<open>align\<close> (lines 99 to 105). The accumulator that the source calls
  \<^verbatim>\<open>sum\<close> is \<open>sum_v\<close> here.
\<close>

fun align_loop :: "Boid \<Rightarrow> Boid list \<Rightarrow> Vector2 \<Rightarrow> int \<Rightarrow> Vector2 \<times> int" where
  "align_loop self [] sum_v count = (sum_v, count)"
| "align_loop self (other # rest) sum_v count =
     (let d = Vector2Distance (position self) (position other) in
      if d > 0 \<and> d < NEIGHBOR_RADIUS then
        align_loop self rest (Vector2Add sum_v (velocity other)) (count + 1)
      else align_loop self rest sum_v count)"

text \<open>\<^verbatim>\<open>align\<close> (lines 94 to 120).\<close>

definition align :: "Boid \<Rightarrow> Boid list \<Rightarrow> Vector2" where
  "align self boids =
     (let (sum_v, count) = align_loop self boids \<lparr>x = 0, y = 0\<rparr> 0 in
      if count > 0 then
        (let sum_v = Vector2Scale sum_v (1 / real_of_int count);
             sum_v = Vector2Normalize sum_v;
             sum_v = Vector2Scale sum_v MAX_SPEED;
             steer = Vector2Subtract sum_v (velocity self)
         in if Vector2Length steer > MAX_FORCE
            then Vector2Scale (Vector2Normalize steer) MAX_FORCE
            else steer)
      else \<lparr>x = 0, y = 0\<rparr>)"

text \<open>The loop of \<^verbatim>\<open>cohesion\<close> (lines 128 to 134).\<close>

fun cohesion_loop :: "Boid \<Rightarrow> Boid list \<Rightarrow> Vector2 \<Rightarrow> int \<Rightarrow> Vector2 \<times> int" where
  "cohesion_loop self [] sum_v count = (sum_v, count)"
| "cohesion_loop self (other # rest) sum_v count =
     (let d = Vector2Distance (position self) (position other) in
      if d > 0 \<and> d < NEIGHBOR_RADIUS then
        cohesion_loop self rest (Vector2Add sum_v (position other)) (count + 1)
      else cohesion_loop self rest sum_v count)"

text \<open>\<^verbatim>\<open>cohesion\<close> (lines 123 to 150).\<close>

definition cohesion :: "Boid \<Rightarrow> Boid list \<Rightarrow> Vector2" where
  "cohesion self boids =
     (let (sum_v, count) = cohesion_loop self boids \<lparr>x = 0, y = 0\<rparr> 0 in
      if count > 0 then
        (let sum_v = Vector2Scale sum_v (1 / real_of_int count);
             steer = Vector2Subtract sum_v (position self);
             steer = Vector2Normalize steer;
             steer = Vector2Scale steer MAX_SPEED;
             steer = Vector2Subtract steer (velocity self)
         in if Vector2Length steer > MAX_FORCE
            then Vector2Scale (Vector2Normalize steer) MAX_FORCE
            else steer)
      else \<lparr>x = 0, y = 0\<rparr>)"

section \<open>The main program\<close>

text \<open>
  The creation loop of \<^verbatim>\<open>main\<close> (lines 169 to 172). Each boid takes four calls of
  \<^verbatim>\<open>GetRandomValue\<close>: two for the position, two for the velocity. raylib documents
  \<^verbatim>\<open>GetRandomValue(min, max)\<close> as a value between \<open>min\<close> and \<open>max\<close>, both included;
  \<open>valid_draw\<close> says that of the four values of one boid.
\<close>

type_synonym draw = "int \<times> int \<times> int \<times> int"

fun valid_draw :: "draw \<Rightarrow> bool" where
  "valid_draw (px, py, r1, r2) =
     (0 \<le> px \<and> px \<le> screenWidth \<and> 0 \<le> py \<and> py \<le> screenHeight \<and>
      - 2 \<le> r1 \<and> r1 \<le> 2 \<and> - 2 \<le> r2 \<and> r2 \<le> 2)"

fun main_new_boid :: "draw \<Rightarrow> Boid" where
  "main_new_boid (px, py, r1, r2) =
     Boid_new \<lparr>x = real_of_int px, y = real_of_int py\<rparr> r1 r2"

definition main_init :: "draw list \<Rightarrow> Boid list" where
  "main_init draws = map main_new_boid draws"

text \<open>
  The body of the loop over the boids (lines 180 to 195), for one boid: the three rules
  read the vector \<open>boids\<close>, the forces are weighted and applied, and the boid is updated
  and wrapped.
\<close>

definition main_body :: "Boid list \<Rightarrow> Boid \<Rightarrow> Boid" where
  "main_body boids boid =
     (let sep = separate boid boids;
          ali = align boid boids;
          coh = cohesion boid boids;
          sep = Vector2Scale sep SEPARATION_WEIGHT;
          ali = Vector2Scale ali ALIGNMENT_WEIGHT;
          coh = Vector2Scale coh COHESION_WEIGHT;
          boid = applyForce boid sep;
          boid = applyForce boid ali;
          boid = applyForce boid coh;
          boid = update boid
      in borders boid)"

text \<open>
  The loop variable is a reference into the vector: the boid at index \<open>i\<close> reads the vector
  as it is when its turn comes, and is written back in place.
\<close>

definition main_step :: "nat \<Rightarrow> Boid list \<Rightarrow> Boid list" where
  "main_step i boids = boids[i := main_body boids (boids ! i)]"

text \<open>
  The loop over the boids (lines 179 to 196): the indices in order, from the first boid to
  the last. \<open>main_tick_upto k\<close> is the vector after the first \<open>k\<close> boids had their turn.
\<close>

definition main_tick_upto :: "nat \<Rightarrow> Boid list \<Rightarrow> Boid list" where
  "main_tick_upto k boids = fold main_step [0..<k] boids"

definition main_tick :: "Boid list \<Rightarrow> Boid list" where
  "main_tick boids = main_tick_upto (length boids) boids"

text \<open>
  The states of the program: the vector after the creation loop, and the vector after each
  pass of the loop over the boids. The main loop runs until the window is closed, so any
  number of passes is possible.
\<close>

inductive reachable :: "Boid list \<Rightarrow> bool" where
  reachable_init:
    "length draws = nat NUM_BOIDS \<Longrightarrow> list_all valid_draw draws \<Longrightarrow>
     reachable (main_init draws)"
| reachable_tick:
    "reachable boids \<Longrightarrow> reachable (main_tick boids)"

text \<open>
  The two-phase update that the specification describes, for comparison with the loop of
  the program: every boid goes through the same body, but all of them read the vector as
  it was before the pass.
\<close>

definition snapshot_tick :: "Boid list \<Rightarrow> Boid list" where
  "snapshot_tick boids = map (main_body boids) boids"

section \<open>Example states\<close>

text \<open>
  A boid between two passes: its acceleration is zero and its rotation is the angle of
  its velocity, as the constructor and \<^verbatim>\<open>update\<close> leave them.
\<close>

definition example_boid :: "real \<Rightarrow> real \<Rightarrow> real \<Rightarrow> real \<Rightarrow> Boid" where
  "example_boid px py vx vy =
     \<lparr>position = \<lparr>x = px, y = py\<rparr>, velocity = \<lparr>x = vx, y = vy\<rparr>,
      acceleration = \<lparr>x = 0, y = 0\<rparr>, rotation = atan2 vy vx\<rparr>"

text \<open>
  Two boids at distance 101.25, both at full speed. The first one flies towards the
  second and is at distance 98.75 after its move.
\<close>

definition flock_two :: "Boid list" where
  "flock_two = [example_boid 0 28.35 2.4 (- 0.7), example_boid 97.2 0 0 2.5]"

text \<open>
  Two outcomes of the creation loop: every boid on the left edge flying left, and every
  boid on the corner of the screen that \<^verbatim>\<open>GetRandomValue\<close> can return.
\<close>

definition edge_draws :: "draw list" where
  "edge_draws = replicate (nat NUM_BOIDS) (0, 400, - 1, 0)"

definition corner_draws :: "draw list" where
  "corner_draws = replicate (nat NUM_BOIDS) (1200, 800, 1, 0)"

section \<open>Facts about vectors\<close>

lemmas vector_defs = Vector2Distance_def Vector2Add_def Vector2Scale_def Vector2Normalize_def
  Vector2Subtract_def Vector2Length_def

lemmas constant_defs = NEIGHBOR_RADIUS_def SEPARATION_RADIUS_def MAX_SPEED_def MAX_FORCE_def
  SEPARATION_WEIGHT_def ALIGNMENT_WEIGHT_def COHESION_WEIGHT_def screenWidth_def
  screenHeight_def NUM_BOIDS_def

lemma sqrt_square_eval: "0 \<le> r \<Longrightarrow> r * r = s \<Longrightarrow> sqrt s = r"
  using real_sqrt_abs2 [of r] by simp

lemma sqrt_9: "sqrt 9 = 3" by (rule sqrt_square_eval) simp_all
lemma sqrt_16: "sqrt 16 = 4" by (rule sqrt_square_eval) simp_all
lemma sqrt_25: "sqrt 25 = 5" by (rule sqrt_square_eval) simp_all
lemma sqrt_40000: "sqrt 40000 = 200" by (rule sqrt_square_eval) simp_all
lemma sqrt_164025: "sqrt 164025 = 405" by (rule sqrt_square_eval) simp_all
lemma sqrt_156025: "sqrt 156025 = 395" by (rule sqrt_square_eval) simp_all

lemmas sqrt_values = sqrt_9 sqrt_16 sqrt_25 sqrt_40000 sqrt_164025 sqrt_156025 real_sqrt_divide

lemma Vector2Length_zero: "Vector2Length \<lparr>x = 0, y = 0\<rparr> = 0"
  by (simp add: Vector2Length_def)

lemma Vector2Distance_self:
  "position other = position self \<Longrightarrow>
   Vector2Distance (position self) (position other) = 0"
  by (simp add: Vector2Distance_def)

section \<open>The boundary step\<close>

lemma borders_position_x:
  "x (position (borders b)) =
     (if x (position b) < 0 then real_of_int screenWidth
      else if x (position b) > real_of_int screenWidth then 0
      else x (position b))"
  by (simp add: borders_def Let_def screenWidth_def)

lemma borders_position_y:
  "y (position (borders b)) =
     (if y (position b) < 0 then real_of_int screenHeight
      else if y (position b) > real_of_int screenHeight then 0
      else y (position b))"
  by (simp add: borders_def Let_def screenHeight_def)

text \<open>
  C9. \<^verbatim>\<open>borders\<close> writes the position only: the velocity, the acceleration and the
  rotation of the boid are the ones it had before.
\<close>

theorem borders_frame:
  "velocity (borders b) = velocity b \<and>
   acceleration (borders b) = acceleration b \<and>
   rotation (borders b) = rotation b"
  by (simp add: borders_def Let_def)

text \<open>
  C1, as the code has it. After \<^verbatim>\<open>borders\<close> the position lies in the closed rectangle:
  \<open>0 \<le> x \<le> screenWidth\<close> and \<open>0 \<le> y \<le> screenHeight\<close>. A coordinate below 0 becomes the
  upper bound itself, a coordinate strictly above the upper bound becomes 0, and any other
  coordinate, the upper bound included, stays as it is.
\<close>

theorem borders_closed_range:
  "0 \<le> x (position (borders b)) \<and> x (position (borders b)) \<le> real_of_int screenWidth \<and>
   0 \<le> y (position (borders b)) \<and> y (position (borders b)) \<le> real_of_int screenHeight \<and>
   x (position (borders b)) =
     (if x (position b) < 0 then real_of_int screenWidth
      else if x (position b) > real_of_int screenWidth then 0
      else x (position b)) \<and>
   y (position (borders b)) =
     (if y (position b) < 0 then real_of_int screenHeight
      else if y (position b) > real_of_int screenHeight then 0
      else y (position b))"
  by (simp add: borders_position_x borders_position_y screenWidth_def screenHeight_def)

text \<open>A boid that has left the screen on the left and at the bottom.\<close>

theorem borders_closed_range_witness:
  "x (position (borders (example_boid (- 1) 801 (- 2) 2))) = 1200 \<and>
   y (position (borders (example_boid (- 1) 801 (- 2) 2))) = 0"
  using borders_closed_range [of "example_boid (- 1) 801 (- 2) 2"]
  by (simp add: example_boid_def screenWidth_def screenHeight_def)

text \<open>
  C1 as stated fails: a boid at \<open>x = -1\<close> is put at \<open>x = 1200\<close>, which is the width and so
  not below it, and a boid at exactly \<open>x = 1200\<close> is left there instead of being put at 0.
\<close>

theorem borders_half_open_counterexample:
  "\<not> (x (position (borders (example_boid (- 1) 0 (- 1) 0))) < real_of_int screenWidth) \<and>
   x (position (borders (example_boid 1200 0 1 0))) \<noteq> 0"
  by (simp add: borders_def example_boid_def Let_def screenWidth_def screenHeight_def)

text \<open>
  C10. \<^verbatim>\<open>borders\<close> is idempotent: a second application leaves the boid as the first one
  made it.
\<close>

theorem borders_idempotent: "borders (borders b) = borders b"
  by (simp add: borders_def Let_def screenWidth_def screenHeight_def)

section \<open>The steering rules\<close>

subsection \<open>No neighbour\<close>

lemma separate_loop_none:
  "\<forall>other \<in> set boids. \<not> (Vector2Distance (position self) (position other) > 0 \<and>
       Vector2Distance (position self) (position other) < SEPARATION_RADIUS) \<Longrightarrow>
   separate_loop self boids steer count = (steer, count)"
  by (induction boids arbitrary: steer count) (simp_all add: Let_def)

lemma align_loop_none:
  "\<forall>other \<in> set boids. \<not> (Vector2Distance (position self) (position other) > 0 \<and>
       Vector2Distance (position self) (position other) < NEIGHBOR_RADIUS) \<Longrightarrow>
   align_loop self boids sum_v count = (sum_v, count)"
  by (induction boids arbitrary: sum_v count) (simp_all add: Let_def)

lemma cohesion_loop_none:
  "\<forall>other \<in> set boids. \<not> (Vector2Distance (position self) (position other) > 0 \<and>
       Vector2Distance (position self) (position other) < NEIGHBOR_RADIUS) \<Longrightarrow>
   cohesion_loop self boids sum_v count = (sum_v, count)"
  by (induction boids arbitrary: sum_v count) (simp_all add: Let_def)

lemma separate_none:
  "\<forall>other \<in> set boids. \<not> (Vector2Distance (position self) (position other) > 0 \<and>
       Vector2Distance (position self) (position other) < SEPARATION_RADIUS) \<Longrightarrow>
   separate self boids = \<lparr>x = 0, y = 0\<rparr>"
  by (simp add: separate_def separate_loop_none Vector2Length_zero)

lemma align_none:
  "\<forall>other \<in> set boids. \<not> (Vector2Distance (position self) (position other) > 0 \<and>
       Vector2Distance (position self) (position other) < NEIGHBOR_RADIUS) \<Longrightarrow>
   align self boids = \<lparr>x = 0, y = 0\<rparr>"
  by (simp add: align_def align_loop_none)

lemma cohesion_none:
  "\<forall>other \<in> set boids. \<not> (Vector2Distance (position self) (position other) > 0 \<and>
       Vector2Distance (position self) (position other) < NEIGHBOR_RADIUS) \<Longrightarrow>
   cohesion self boids = \<lparr>x = 0, y = 0\<rparr>"
  by (simp add: cohesion_def cohesion_loop_none)

text \<open>
  C6. When no boid of the vector is at a distance that passes the test of a rule
  (greater than 0 and less than the radius of the rule), the rule returns the zero vector.
  The rules are total functions: no input makes them fail.
\<close>

theorem no_neighbor_zero:
  "((\<forall>other \<in> set boids. \<not> (Vector2Distance (position self) (position other) > 0 \<and>
        Vector2Distance (position self) (position other) < SEPARATION_RADIUS)) \<longrightarrow>
    separate self boids = \<lparr>x = 0, y = 0\<rparr>) \<and>
   ((\<forall>other \<in> set boids. \<not> (Vector2Distance (position self) (position other) > 0 \<and>
        Vector2Distance (position self) (position other) < NEIGHBOR_RADIUS)) \<longrightarrow>
    align self boids = \<lparr>x = 0, y = 0\<rparr> \<and> cohesion self boids = \<lparr>x = 0, y = 0\<rparr>)"
  by (simp add: separate_none align_none cohesion_none)

text \<open>A boid and another one 200 units away: the only distances are 0 and 200.\<close>

theorem no_neighbor_zero_witness:
  "Vector2Distance (position (example_boid 0 0 1 0)) (position (example_boid 0 0 1 0)) = 0 \<and>
   Vector2Distance (position (example_boid 0 0 1 0)) (position (example_boid 200 0 1 0)) = 200 \<and>
   separate (example_boid 0 0 1 0) [example_boid 0 0 1 0, example_boid 200 0 1 0]
     = \<lparr>x = 0, y = 0\<rparr> \<and>
   align (example_boid 0 0 1 0) [example_boid 0 0 1 0, example_boid 200 0 1 0]
     = \<lparr>x = 0, y = 0\<rparr> \<and>
   cohesion (example_boid 0 0 1 0) [example_boid 0 0 1 0, example_boid 200 0 1 0]
     = \<lparr>x = 0, y = 0\<rparr>"
proof -
  have d: "Vector2Distance (position (example_boid 0 0 1 0)) (position (example_boid 0 0 1 0)) = 0"
    "Vector2Distance (position (example_boid 0 0 1 0)) (position (example_boid 200 0 1 0)) = 200"
    by (simp_all add: example_boid_def Vector2Distance_def sqrt_40000)
  show ?thesis
    using no_neighbor_zero [of "[example_boid 0 0 1 0, example_boid 200 0 1 0]"
        "example_boid 0 0 1 0"]
    by (simp add: d constant_defs)
qed

subsection \<open>Boids at the same position\<close>

lemma separate_loop_coincident:
  "position other = position self \<Longrightarrow>
   separate_loop self (xs @ other # ys) steer count = separate_loop self (xs @ ys) steer count"
  by (induction xs arbitrary: steer count) (simp_all add: Let_def Vector2Distance_self)

lemma align_loop_coincident:
  "position other = position self \<Longrightarrow>
   align_loop self (xs @ other # ys) sum_v count = align_loop self (xs @ ys) sum_v count"
  by (induction xs arbitrary: sum_v count) (simp_all add: Let_def Vector2Distance_self)

lemma cohesion_loop_coincident:
  "position other = position self \<Longrightarrow>
   cohesion_loop self (xs @ other # ys) sum_v count = cohesion_loop self (xs @ ys) sum_v count"
  by (induction xs arbitrary: sum_v count) (simp_all add: Let_def Vector2Distance_self)

text \<open>
  C7. A boid at the position of the querying boid, the querying boid itself included,
  contributes nothing to any of the three rules: wherever it stands in the vector, the
  rule returns what it returns on the vector without it. Since the hypothesis is
  symmetric, two boids at the same position are invisible to each other.
\<close>

theorem coincident_invisible:
  "position other = position self \<Longrightarrow>
   separate self (xs @ other # ys) = separate self (xs @ ys) \<and>
   align self (xs @ other # ys) = align self (xs @ ys) \<and>
   cohesion self (xs @ other # ys) = cohesion self (xs @ ys)"
  by (simp add: separate_def align_def cohesion_def separate_loop_coincident
      align_loop_coincident cohesion_loop_coincident)

text \<open>
  A boid with a neighbour 3 units away, and a third boid with another velocity at the
  position of the first.
\<close>

theorem coincident_invisible_witness:
  "position (example_boid 0 0 0 2) = position (example_boid 0 0 1 0) \<and>
   separate (example_boid 0 0 1 0)
      [example_boid 0 0 1 0, example_boid 0 0 0 2, example_boid 3 0 1 0]
     = separate (example_boid 0 0 1 0) [example_boid 0 0 1 0, example_boid 3 0 1 0] \<and>
   align (example_boid 0 0 1 0)
      [example_boid 0 0 1 0, example_boid 0 0 0 2, example_boid 3 0 1 0]
     = align (example_boid 0 0 1 0) [example_boid 0 0 1 0, example_boid 3 0 1 0] \<and>
   cohesion (example_boid 0 0 1 0)
      [example_boid 0 0 1 0, example_boid 0 0 0 2, example_boid 3 0 1 0]
     = cohesion (example_boid 0 0 1 0) [example_boid 0 0 1 0, example_boid 3 0 1 0]"
proof -
  have p: "position (example_boid 0 0 0 2) = position (example_boid 0 0 1 0)"
    by (simp add: example_boid_def)
  show ?thesis
    using coincident_invisible [OF p, of "[example_boid 0 0 1 0]" "[example_boid 3 0 1 0]"] p
    by simp
qed

subsection \<open>Alignment among boids of one velocity\<close>







section \<open>One pass over the boids\<close>

text \<open>The body of the loop, given the three forces.\<close>

lemma main_body_forces:
  assumes "separate b bs = s" "align b bs = a" "cohesion b bs = c"
  shows "main_body bs b =
     borders (update (b\<lparr>acceleration :=
        Vector2Add (Vector2Add (Vector2Add (acceleration b) (Vector2Scale s SEPARATION_WEIGHT))
          (Vector2Scale a ALIGNMENT_WEIGHT)) (Vector2Scale c COHESION_WEIGHT)\<rparr>))"
  by (simp add: main_body_def applyForce_def Let_def assms)

lemma main_step_length: "length (main_step i boids) = length boids"
  by (simp add: main_step_def)

lemma main_tick_upto_0: "main_tick_upto 0 boids = boids"
  by (simp add: main_tick_upto_def)

lemma main_tick_upto_Suc:
  "main_tick_upto (Suc k) boids = main_step k (main_tick_upto k boids)"
  by (simp add: main_tick_upto_def)

lemma main_tick_upto_length: "length (main_tick_upto k boids) = length boids"
  by (induction k) (simp_all add: main_tick_upto_0 main_tick_upto_Suc main_step_length)

lemma main_tick_length: "length (main_tick boids) = length boids"
  by (simp add: main_tick_def main_tick_upto_length)

text \<open>A boid whose turn has not come is as it was before the pass.\<close>

lemma main_tick_upto_later:
  "k \<le> j \<Longrightarrow> main_tick_upto k boids ! j = boids ! j"
  by (induction k) (simp_all add: main_tick_upto_0 main_tick_upto_Suc main_step_def)

text \<open>A boid whose turn is over is not written again in the pass.\<close>

lemma main_tick_upto_earlier:
  "j < k \<Longrightarrow> main_tick_upto k boids ! j = main_tick_upto (Suc j) boids ! j"
proof (induction k)
  case 0
  then show ?case by simp
next
  case (Suc k)
  show ?case
  proof (cases "j = k")
    case True
    then show ?thesis by simp
  next
    case False
    with Suc.prems have "j < k" by simp
    with Suc.IH False show ?thesis
      by (simp add: main_tick_upto_Suc [of k] main_step_def)
  qed
qed

lemma main_tick_upto_split:
  assumes "i \<le> length boids"
  shows "main_tick_upto i boids = take i (main_tick boids) @ drop i boids"
proof (rule nth_equalityI)
  show "length (main_tick_upto i boids) = length (take i (main_tick boids) @ drop i boids)"
    using assms by (simp add: main_tick_upto_length main_tick_def)
next
  fix j assume "j < length (main_tick_upto i boids)"
  then have j: "j < length boids" by (simp add: main_tick_upto_length)
  show "main_tick_upto i boids ! j = (take i (main_tick boids) @ drop i boids) ! j"
  proof (cases "j < i")
    case True
    have "main_tick_upto i boids ! j = main_tick_upto (Suc j) boids ! j"
      using True by (rule main_tick_upto_earlier)
    also have "\<dots> = main_tick_upto (length boids) boids ! j"
      using j by (rule main_tick_upto_earlier [symmetric])
    finally show ?thesis
      using True assms by (simp add: nth_append main_tick_def main_tick_upto_length)
  next
    case False
    then show ?thesis
      using assms j
      by (simp add: nth_append main_tick_def main_tick_upto_length main_tick_upto_later)
  qed
qed

lemma main_tick_nth:
  assumes "i < length boids"
  shows "main_tick boids ! i =
           main_body (take i (main_tick boids) @ drop i boids) (boids ! i)"
proof -
  have "main_tick boids ! i = main_tick_upto (Suc i) boids ! i"
    unfolding main_tick_def using assms by (rule main_tick_upto_earlier)
  also have "\<dots> = main_body (main_tick_upto i boids) (main_tick_upto i boids ! i)"
    using assms by (simp add: main_tick_upto_Suc main_step_def main_tick_upto_length)
  also have "main_tick_upto i boids ! i = boids ! i"
    by (simp add: main_tick_upto_later)
  also have "main_tick_upto i boids = take i (main_tick boids) @ drop i boids"
    using assms by (simp add: main_tick_upto_split)
  finally show ?thesis .
qed

text \<open>
  C3, as the code has it. In one pass the boid at index \<open>i\<close> reads the boids before it as
  the pass has already left them and the boids from itself on as they were before the
  pass. Only the first boid reads the vector as it was before the pass.
\<close>

theorem main_tick_interleaved:
  "length (main_tick boids) = length boids \<and>
   (\<forall>i < length boids.
      main_tick boids ! i =
        main_body (take i (main_tick boids) @ drop i boids) (boids ! i)) \<and>
   (boids \<noteq> [] \<longrightarrow> main_tick boids ! 0 = snapshot_tick boids ! 0)"
proof (intro conjI allI impI)
  show "length (main_tick boids) = length boids" by (rule main_tick_length)
next
  fix i assume "i < length boids"
  then show "main_tick boids ! i =
        main_body (take i (main_tick boids) @ drop i boids) (boids ! i)"
    by (rule main_tick_nth)
next
  assume "boids \<noteq> []"
  then have "0 < length boids" by simp
  then show "main_tick boids ! 0 = snapshot_tick boids ! 0"
    using main_tick_nth [of 0 boids] by (simp add: snapshot_tick_def)
qed

text \<open>The second boid of \<open>flock_two\<close>, and the first one as its turn leaves it.\<close>

theorem main_tick_interleaved_witness:
  "flock_two \<noteq> [] \<and> 1 < length flock_two \<and>
   length (main_tick flock_two) = 2 \<and>
   main_tick flock_two ! 1 =
     main_body (take 1 (main_tick flock_two) @ drop 1 flock_two) (flock_two ! 1) \<and>
   main_tick flock_two ! 0 = snapshot_tick flock_two ! 0"
proof -
  have len: "length flock_two = 2" "flock_two \<noteq> []"
    by (simp_all add: flock_two_def)
  have one: "1 < length flock_two" by (simp add: flock_two_def)
  from main_tick_interleaved [of flock_two]
  have a: "length (main_tick flock_two) = length flock_two"
    and b: "\<forall>i < length flock_two. main_tick flock_two ! i =
        main_body (take i (main_tick flock_two) @ drop i flock_two) (flock_two ! i)"
    and c: "flock_two \<noteq> [] \<longrightarrow> main_tick flock_two ! 0 = snapshot_tick flock_two ! 0"
    by blast+
  from b one have "main_tick flock_two ! 1 =
     main_body (take 1 (main_tick flock_two) @ drop 1 flock_two) (flock_two ! 1)"
    by blast
  with a c len one show ?thesis by simp
qed

text \<open>
  C3 as stated fails on \<open>flock_two\<close>. Before the pass the two boids are 101.25 apart, so
  neither sees the other. The first boid moves to \<open>(2.4, 27.65)\<close>, which is 98.75 from the
  second.
\<close>

lemma flock_two_first_forces:
  "separate (flock_two ! 0) flock_two = \<lparr>x = 0, y = 0\<rparr>"
  "align (flock_two ! 0) flock_two = \<lparr>x = 0, y = 0\<rparr>"
  "cohesion (flock_two ! 0) flock_two = \<lparr>x = 0, y = 0\<rparr>"
  by (simp_all add: flock_two_def separate_def align_def cohesion_def
      example_boid_def Let_def vector_defs constant_defs sqrt_values)

lemma flock_two_first:
  "main_body flock_two (flock_two ! 0) =
     \<lparr>position = \<lparr>x = 2.4, y = 27.65\<rparr>, velocity = \<lparr>x = 2.4, y = - 0.7\<rparr>,
      acceleration = \<lparr>x = 0, y = 0\<rparr>, rotation = atan2 (- 0.7) 2.4\<rparr>"
  unfolding main_body_forces [OF flock_two_first_forces]
  by (simp add: flock_two_def example_boid_def update_def borders_def Let_def vector_defs
      constant_defs sqrt_values)

text \<open>
  In the loop of the program the second boid finds the first one moved, inside its
  radius: alignment and cohesion both pull it to the left.
\<close>

lemma flock_two_second_forces:
  "separate (flock_two ! 1)
     [\<lparr>position = \<lparr>x = 2.4, y = 27.65\<rparr>, velocity = \<lparr>x = 2.4, y = - 0.7\<rparr>,
       acceleration = \<lparr>x = 0, y = 0\<rparr>, rotation = atan2 (- 0.7) 2.4\<rparr>, flock_two ! 1]
     = \<lparr>x = 0, y = 0\<rparr>"
  "align (flock_two ! 1)
     [\<lparr>position = \<lparr>x = 2.4, y = 27.65\<rparr>, velocity = \<lparr>x = 2.4, y = - 0.7\<rparr>,
       acceleration = \<lparr>x = 0, y = 0\<rparr>, rotation = atan2 (- 0.7) 2.4\<rparr>, flock_two ! 1]
     = \<lparr>x = 0.06, y = - 0.08\<rparr>"
  "cohesion (flock_two ! 1)
     [\<lparr>position = \<lparr>x = 2.4, y = 27.65\<rparr>, velocity = \<lparr>x = 2.4, y = - 0.7\<rparr>,
       acceleration = \<lparr>x = 0, y = 0\<rparr>, rotation = atan2 (- 0.7) 2.4\<rparr>, flock_two ! 1]
     = \<lparr>x = - 0.08, y = - 0.06\<rparr>"
  by (simp_all add: flock_two_def separate_def align_def cohesion_def
      example_boid_def Let_def vector_defs constant_defs sqrt_values)

lemma flock_two_second_interleaved:
  "x (velocity (main_body
        [\<lparr>position = \<lparr>x = 2.4, y = 27.65\<rparr>, velocity = \<lparr>x = 2.4, y = - 0.7\<rparr>,
          acceleration = \<lparr>x = 0, y = 0\<rparr>, rotation = atan2 (- 0.7) 2.4\<rparr>, flock_two ! 1]
        (flock_two ! 1))) \<noteq> 0"
  unfolding main_body_forces [OF flock_two_second_forces]
  by (simp add: flock_two_def example_boid_def update_def borders_def Let_def vector_defs
      constant_defs sqrt_values)

text \<open>In the two-phase update it sees nobody and flies straight on.\<close>

lemma flock_two_second_snapshot_forces:
  "separate (flock_two ! 1) flock_two = \<lparr>x = 0, y = 0\<rparr>"
  "align (flock_two ! 1) flock_two = \<lparr>x = 0, y = 0\<rparr>"
  "cohesion (flock_two ! 1) flock_two = \<lparr>x = 0, y = 0\<rparr>"
  by (simp_all add: flock_two_def separate_def align_def cohesion_def
      example_boid_def Let_def vector_defs constant_defs sqrt_values)

lemma flock_two_second_snapshot:
  "x (velocity (main_body flock_two (flock_two ! 1))) = 0"
  unfolding main_body_forces [OF flock_two_second_snapshot_forces]
  by (simp add: flock_two_def example_boid_def update_def borders_def Let_def vector_defs
      constant_defs sqrt_values)

theorem main_tick_snapshot_counterexample:
  "main_tick flock_two \<noteq> snapshot_tick flock_two"
proof
  assume eq: "main_tick flock_two = snapshot_tick flock_two"
  have len: "length flock_two = 2" by (simp add: flock_two_def)
  have t0: "main_tick flock_two ! 0 = main_body flock_two (flock_two ! 0)"
    using main_tick_nth [of 0 flock_two] len by simp
  have "take 1 (main_tick flock_two) = [main_tick flock_two ! 0]"
    using len by (simp add: take_Suc_conv_app_nth main_tick_length)
  moreover have "drop 1 flock_two = [flock_two ! 1]"
    by (simp add: flock_two_def)
  ultimately have t1: "main_tick flock_two ! 1 =
      main_body [main_body flock_two (flock_two ! 0), flock_two ! 1] (flock_two ! 1)"
    using main_tick_nth [of 1 flock_two] len by (simp add: t0)
  have s1: "snapshot_tick flock_two ! 1 = main_body flock_two (flock_two ! 1)"
    using len by (simp add: snapshot_tick_def)
  have "main_tick flock_two ! 1 = snapshot_tick flock_two ! 1"
    by (simp only: eq)
  then have "main_body [main_body flock_two (flock_two ! 0), flock_two ! 1] (flock_two ! 1)
             = main_body flock_two (flock_two ! 1)"
    by (simp only: t1 s1)
  then have "x (velocity (main_body
        [main_body flock_two (flock_two ! 0), flock_two ! 1] (flock_two ! 1))) = 0"
    by (simp only: flock_two_second_snapshot)
  then show False using flock_two_second_interleaved by (simp only: flock_two_first)
qed

section \<open>The positions in the states of the program\<close>

lemma main_body_in_screen:
  "0 \<le> x (position (main_body boids b)) \<and>
   x (position (main_body boids b)) \<le> real_of_int screenWidth \<and>
   0 \<le> y (position (main_body boids b)) \<and>
   y (position (main_body boids b)) \<le> real_of_int screenHeight"
  by (simp add: main_body_def Let_def borders_position_x borders_position_y
      screenWidth_def screenHeight_def)

lemma main_tick_in_screen:
  assumes "b \<in> set (main_tick boids)"
  shows "0 \<le> x (position b) \<and> x (position b) \<le> real_of_int screenWidth \<and>
         0 \<le> y (position b) \<and> y (position b) \<le> real_of_int screenHeight"
proof -
  from assms obtain i where i: "i < length boids" "b = main_tick boids ! i"
    by (auto simp: in_set_conv_nth main_tick_length)
  show ?thesis unfolding i(2) main_tick_nth [OF i(1)] by (rule main_body_in_screen)
qed

lemma main_init_in_screen:
  assumes "list_all valid_draw draws" "b \<in> set (main_init draws)"
  shows "0 \<le> x (position b) \<and> x (position b) \<le> real_of_int screenWidth \<and>
         0 \<le> y (position b) \<and> y (position b) \<le> real_of_int screenHeight"
proof -
  from assms(2) obtain d where d: "d \<in> set draws" "b = main_new_boid d"
    by (auto simp: main_init_def)
  obtain px py r1 r2 where p: "d = (px, py, r1, r2)" by (cases d) auto
  from assms(1) d(1) have "valid_draw d" by (simp add: list_all_iff)
  then show ?thesis by (simp add: d(2) p Boid_new_def Let_def)
qed

text \<open>
  C4, as the code has it. In every state of the program, the one after the creation loop
  and the one after each pass, every boid is in the closed rectangle:
  \<open>0 \<le> x \<le> screenWidth\<close> and \<open>0 \<le> y \<le> screenHeight\<close>.
\<close>

theorem reachable_in_screen:
  "reachable boids \<Longrightarrow>
   \<forall>b \<in> set boids.
     0 \<le> x (position b) \<and> x (position b) \<le> real_of_int screenWidth \<and>
     0 \<le> y (position b) \<and> y (position b) \<le> real_of_int screenHeight"
proof (induction rule: reachable.induct)
  case (reachable_init draws)
  then show ?case using main_init_in_screen by blast
next
  case (reachable_tick boids)
  show ?case using main_tick_in_screen by blast
qed

text \<open>A boid that shares its position with every boid of the vector feels no force.\<close>

lemma main_body_alone:
  assumes "\<forall>other \<in> set boids. position other = position b"
  shows "main_body boids b =
     borders (update (b\<lparr>acceleration :=
        Vector2Add (Vector2Add (Vector2Add (acceleration b)
            (Vector2Scale \<lparr>x = 0, y = 0\<rparr> SEPARATION_WEIGHT))
          (Vector2Scale \<lparr>x = 0, y = 0\<rparr> ALIGNMENT_WEIGHT))
          (Vector2Scale \<lparr>x = 0, y = 0\<rparr> COHESION_WEIGHT)\<rparr>))"
proof (rule main_body_forces)
  show "separate b boids = \<lparr>x = 0, y = 0\<rparr>"
    by (rule separate_none) (simp add: assms Vector2Distance_self)
  show "align b boids = \<lparr>x = 0, y = 0\<rparr>"
    by (rule align_none) (simp add: assms Vector2Distance_self)
  show "cohesion b boids = \<lparr>x = 0, y = 0\<rparr>"
    by (rule cohesion_none) (simp add: assms Vector2Distance_self)
qed

lemma edge_init:
  "main_init edge_draws = replicate (nat NUM_BOIDS) (main_new_boid (0, 400, - 1, 0))"
  by (simp add: main_init_def edge_draws_def)

lemma edge_reachable: "reachable (main_init edge_draws)"
  by (rule reachable_init) (simp_all add: edge_draws_def list_all_iff constant_defs)

lemma corner_reachable: "reachable (main_init corner_draws)"
  by (rule reachable_init) (simp_all add: corner_draws_def list_all_iff constant_defs)

text \<open>
  C4 as stated fails. With every boid created at \<open>(0, 400)\<close> with the velocity \<open>(-1, 0)\<close>,
  the first boid moves to \<open>(-2.5, 400)\<close> in the first pass and \<^verbatim>\<open>borders\<close> puts it at
  \<open>x = 1200\<close>, the width itself. The creation loop alone can also put a boid at
  \<open>(1200, 800)\<close>.
\<close>

lemma edge_first_after_tick:
  "main_tick (main_init edge_draws) ! 0 =
     \<lparr>position = \<lparr>x = 1200, y = 400\<rparr>, velocity = \<lparr>x = - 2.5, y = 0\<rparr>,
      acceleration = \<lparr>x = 0, y = 0\<rparr>, rotation = atan2 0 (- 2.5)\<rparr>"
proof -
  have n: "0 < length (main_init edge_draws)"
    by (simp add: edge_init NUM_BOIDS_def)
  have f: "main_init edge_draws ! 0 = main_new_boid (0, 400, - 1, 0)"
    by (simp add: edge_init NUM_BOIDS_def)
  have same: "\<forall>other \<in> set (main_init edge_draws).
      position other = position (main_new_boid (0, 400, - 1, 0))"
    by (simp add: edge_init)
  have "main_tick (main_init edge_draws) ! 0 =
        main_body (main_init edge_draws) (main_new_boid (0, 400, - 1, 0))"
    using main_tick_nth [OF n] by (simp add: f)
  also have "\<dots> = \<lparr>position = \<lparr>x = 1200, y = 400\<rparr>, velocity = \<lparr>x = - 2.5, y = 0\<rparr>,
      acceleration = \<lparr>x = 0, y = 0\<rparr>, rotation = atan2 0 (- 2.5)\<rparr>"
    unfolding main_body_alone [OF same]
    by (simp add: Boid_new_def update_def borders_def Let_def vector_defs constant_defs)
  finally show ?thesis .
qed

theorem reachable_half_open_counterexample:
  "reachable (main_tick (main_init edge_draws)) \<and>
   0 < length (main_tick (main_init edge_draws)) \<and>
   \<not> (x (position (main_tick (main_init edge_draws) ! 0)) < real_of_int screenWidth) \<and>
   reachable (main_init corner_draws) \<and>
   0 < length (main_init corner_draws) \<and>
   \<not> (x (position (main_init corner_draws ! 0)) < real_of_int screenWidth) \<and>
   \<not> (y (position (main_init corner_draws ! 0)) < real_of_int screenHeight)"
proof (intro conjI)
  show "reachable (main_tick (main_init edge_draws))"
    by (rule reachable_tick) (rule edge_reachable)
  show "0 < length (main_tick (main_init edge_draws))"
    by (simp add: main_tick_length edge_init NUM_BOIDS_def)
  show "\<not> (x (position (main_tick (main_init edge_draws) ! 0)) < real_of_int screenWidth)"
    by (simp add: edge_first_after_tick screenWidth_def)
  show "reachable (main_init corner_draws)" by (rule corner_reachable)
  show "0 < length (main_init corner_draws)"
    by (simp add: main_init_def corner_draws_def NUM_BOIDS_def)
  show "\<not> (x (position (main_init corner_draws ! 0)) < real_of_int screenWidth)"
    by (simp add: main_init_def corner_draws_def Boid_new_def constant_defs)
  show "\<not> (y (position (main_init corner_draws ! 0)) < real_of_int screenHeight)"
    by (simp add: main_init_def corner_draws_def Boid_new_def constant_defs)
qed

text \<open>The first boid after the first pass from \<open>edge_draws\<close>.\<close>

theorem reachable_in_screen_witness:
  "reachable (main_tick (main_init edge_draws)) \<and>
   main_tick (main_init edge_draws) ! 0 \<in> set (main_tick (main_init edge_draws)) \<and>
   0 \<le> x (position (main_tick (main_init edge_draws) ! 0)) \<and>
   x (position (main_tick (main_init edge_draws) ! 0)) \<le> real_of_int screenWidth \<and>
   0 \<le> y (position (main_tick (main_init edge_draws) ! 0)) \<and>
   y (position (main_tick (main_init edge_draws) ! 0)) \<le> real_of_int screenHeight"
proof -
  have r: "reachable (main_tick (main_init edge_draws))"
    by (rule reachable_tick) (rule edge_reachable)
  have m: "main_tick (main_init edge_draws) ! 0 \<in> set (main_tick (main_init edge_draws))"
    by (rule nth_mem) (simp add: main_tick_length edge_init NUM_BOIDS_def)
  from reachable_in_screen [OF r] m
  have "0 \<le> x (position (main_tick (main_init edge_draws) ! 0)) \<and>
   x (position (main_tick (main_init edge_draws) ! 0)) \<le> real_of_int screenWidth \<and>
   0 \<le> y (position (main_tick (main_init edge_draws) ! 0)) \<and>
   y (position (main_tick (main_init edge_draws) ! 0)) \<le> real_of_int screenHeight"
    by (rule bspec)
  with r m show ?thesis by blast
qed

end
